theory Spec2Isabelle
  imports Main
begin

section \<open>GoNext runtime: static server with SPA fallback and backend supervision\<close>

text \<open>
  The development embeds the generated runtime of GoNext (\<^verbatim>\<open>testDir/main.go\<close>, which is
  the instance of \<^verbatim>\<open>mainTemplate\<close> for the directory \<^verbatim>\<open>front-end/out\<close>): the resolver
  \<^verbatim>\<open>fileExists\<close>, the handler registered by \<^verbatim>\<open>startServer\<close>, and the control flow of
  \<^verbatim>\<open>main\<close> and \<^verbatim>\<open>startHTTPServer\<close>.

  The source calls the Go standard library at every step. The library functions that
  decide what a request receives (\<^verbatim>\<open>strings.TrimPrefix\<close>, \<^verbatim>\<open>path.Clean\<close>,
  \<^verbatim>\<open>fs.ValidPath\<close>, \<^verbatim>\<open>embed.FS.Open\<close>, \<^verbatim>\<open>http.ServeMux\<close>, \<^verbatim>\<open>http.FileServer\<close>,
  \<^verbatim>\<open>log.Fatalf\<close>) are modelled after their documented behaviour, each under its Go name.

  Scope of the request model: a request is a \<^verbatim>\<open>GET\<close> without query string and without
  \<^verbatim>\<open>Range\<close> or conditional headers, given by the two forms of its path that
  \<^verbatim>\<open>net/http\<close> reads: the escaped path of the request line and the decoded
  \<^verbatim>\<open>URL.Path\<close>.
\<close>

subsection \<open>Package strings\<close>

definition HasPrefix :: "string \<Rightarrow> string \<Rightarrow> bool" where
  "HasPrefix s pre = (take (length pre) s = pre)"

definition HasSuffix :: "string \<Rightarrow> string \<Rightarrow> bool" where
  "HasSuffix s suf = (length suf \<le> length s \<and> drop (length s - length suf) s = suf)"

definition TrimPrefix :: "string \<Rightarrow> string \<Rightarrow> string" where
  "TrimPrefix s pre = (if HasPrefix s pre then drop (length pre) s else s)"

definition TrimSuffix :: "string \<Rightarrow> string \<Rightarrow> string" where
  "TrimSuffix s suf = (if HasSuffix s suf then take (length s - length suf) s else s)"

text \<open>\<^verbatim>\<open>strings.Split(s, "/")\<close> and \<^verbatim>\<open>strings.Join(elems, "/")\<close>.\<close>

fun splitSlash :: "string \<Rightarrow> string list" where
  "splitSlash [] = [[]]"
| "splitSlash (c # cs) =
     (if c = CHR ''/'' then [] # splitSlash cs
      else (case splitSlash cs of [] \<Rightarrow> [[c]] | s # ss \<Rightarrow> (c # s) # ss))"

fun joinSlash :: "string list \<Rightarrow> string" where
  "joinSlash [] = []"
| "joinSlash [s] = s"
| "joinSlash (s # t # ss) = s @ ''/'' @ joinSlash (t # ss)"

subsection \<open>Package path\<close>

text \<open>
  \<^verbatim>\<open>path.Clean\<close>: multiple slashes become one, every \<^verbatim>\<open>.\<close> element is dropped, every
  inner \<^verbatim>\<open>..\<close> is dropped with the element before it, a \<^verbatim>\<open>..\<close> that begins a rooted
  path is dropped, and the empty result is \<^verbatim>\<open>.\<close>. The elements are processed from left to
  right with the stack \<open>out\<close> of the elements kept so far (most recent first).
\<close>

fun cleanElems :: "bool \<Rightarrow> string list \<Rightarrow> string list \<Rightarrow> string list" where
  "cleanElems rooted [] out = rev out"
| "cleanElems rooted (e # es) out =
     (if e = [] \<or> e = ''.'' then cleanElems rooted es out
      else if e = ''..'' then
        (case out of
           [] \<Rightarrow> if rooted then cleanElems rooted es [] else cleanElems rooted es [e]
         | t # ts \<Rightarrow> if t = ''..'' then cleanElems rooted es (e # out)
                     else cleanElems rooted es ts)
      else cleanElems rooted es (e # out))"

definition path_Clean :: "string \<Rightarrow> string" where
  "path_Clean p =
     (if p = [] then ''.''
      else if hd p = CHR ''/'' then ''/'' @ joinSlash (cleanElems True (splitSlash p) [])
      else (case cleanElems False (splitSlash p) [] of
              [] \<Rightarrow> ''.''
            | es \<Rightarrow> joinSlash es))"

text \<open>\<^verbatim>\<open>path.Base\<close>: the last element of the path, trailing slashes removed first.\<close>

fun stripTrailingSlashes :: "string \<Rightarrow> string" where
  "stripTrailingSlashes p =
     (if p \<noteq> [] \<and> last p = CHR ''/'' then stripTrailingSlashes (butlast p) else p)"

definition path_Base :: "string \<Rightarrow> string" where
  "path_Base p =
     (if p = [] then ''.''
      else (let q = last (splitSlash (stripTrailingSlashes p))
            in if q = [] then ''/'' else q))"

subsection \<open>Package io/fs and the embedded file system\<close>

text \<open>
  \<^verbatim>\<open>fs.ValidPath\<close>: the name is \<^verbatim>\<open>.\<close>, or every slash-separated element of it is
  non-empty and neither \<^verbatim>\<open>.\<close> nor \<^verbatim>\<open>..\<close>. So the empty name, a name with a leading or
  trailing slash and a name with a doubled slash are invalid. (The library also requires
  valid UTF-8; names are taken to be so.)
\<close>

definition validElem :: "string \<Rightarrow> bool" where
  "validElem e = (e \<noteq> [] \<and> e \<noteq> ''.'' \<and> e \<noteq> ''..'')"

definition ValidPath :: "string \<Rightarrow> bool" where
  "ValidPath name = (name = ''.'' \<or> list_all validElem (splitSlash name))"

text \<open>
  The asset tree is what \<^verbatim>\<open>fs.Sub(frontendFS, dir)\<close> returns: the read-only view of the
  embedded files below \<^verbatim>\<open>dir\<close>. A node is a regular file with its bytes or a directory
  with its named entries; the tree is the entry list of its root directory.
\<close>

datatype node = File string | Dir "(string \<times> node) list"

type_synonym assetTree = "(string \<times> node) list"

datatype fsError = ErrInvalid | ErrNotExist

fun lookup :: "node \<Rightarrow> string list \<Rightarrow> node option" where
  "lookup n [] = Some n"
| "lookup (File bs) (e # es) = None"
| "lookup (Dir entries) (e # es) =
     (case map_of entries e of None \<Rightarrow> None | Some n \<Rightarrow> lookup n es)"

text \<open>
  \<^verbatim>\<open>fsys.Open(name)\<close> on the sub-tree view: an invalid name is refused with
  \<^verbatim>\<open>ErrInvalid\<close>, the name \<^verbatim>\<open>.\<close> is the root directory, any other name is looked up
  element by element and is \<^verbatim>\<open>ErrNotExist\<close> when absent. Opening a directory succeeds.
\<close>

definition Open :: "assetTree \<Rightarrow> string \<Rightarrow> fsError + node" where
  "Open fsys name =
     (if \<not> ValidPath name then Inl ErrInvalid
      else if name = ''.'' then Inr (Dir fsys)
      else (case lookup (Dir fsys) (splitSlash name) of
              None \<Rightarrow> Inl ErrNotExist
            | Some n \<Rightarrow> Inr n))"

fun IsDir :: "node \<Rightarrow> bool" where
  "IsDir (Dir entries) = True"
| "IsDir (File bs) = False"

text \<open>\<^verbatim>\<open>io.ReadAll(f)\<close>: the bytes of a regular file; reading a directory is an error.\<close>

datatype readError = ErrIsDirectory

fun ReadAll :: "node \<Rightarrow> readError + string" where
  "ReadAll (File bs) = Inr bs"
| "ReadAll (Dir entries) = Inl ErrIsDirectory"

subsection \<open>Package net/http\<close>

text \<open>
  A response is named after the library responder that writes it:
  \<^item> \<open>Content bs\<close>: \<^verbatim>\<open>http.ServeContent\<close>, status 200 with the body \<open>bs\<close>;
  \<^item> \<open>DirList names\<close>: the generated listing of a directory, status 200;
  \<^item> \<open>LocalRedirect loc\<close>: the file server's redirect, status 301, header \<^verbatim>\<open>Location: loc\<close>;
  \<^item> \<open>Redirect p\<close>: the mux's \<^verbatim>\<open>http.RedirectHandler\<close>, status 301, to the URL whose path
    is \<open>p\<close>;
  \<^item> \<open>Error msg code\<close>: \<^verbatim>\<open>http.Error(w, msg, code)\<close>.
\<close>

datatype response =
    Content string
  | DirList "string list"
  | LocalRedirect string
  | Redirect string
  | Error string nat

fun status :: "response \<Rightarrow> nat" where
  "status (Content bs) = 200"
| "status (DirList names) = 200"
| "status (LocalRedirect loc) = 301"
| "status (Redirect loc) = 301"
| "status (Error msg code) = code"

text \<open>
  \<^verbatim>\<open>http.FS(fsys).Open(name)\<close>: the name \<^verbatim>\<open>/\<close> is the root, any other name loses one
  leading slash. (The library also rewrites the error of an invalid name; the file server
  opens cleaned names only, and \<open>toHTTPError\<close> below is given the error as it is.)
\<close>

definition ioFS_Open :: "assetTree \<Rightarrow> string \<Rightarrow> fsError + node" where
  "ioFS_Open fsys name = Open fsys (if name = ''/'' then ''.'' else TrimPrefix name ''/'')"

fun toHTTPError :: "fsError \<Rightarrow> response" where
  "toHTTPError ErrNotExist = Error ''404 page not found'' 404"
| "toHTTPError ErrInvalid = Error ''500 Internal Server Error'' 500"

fun entryName :: "string \<times> node \<Rightarrow> string" where
  "entryName (name, n) = (if IsDir n then name @ ''/'' else name)"

text \<open>The end of \<^verbatim>\<open>serveFile\<close>: a directory is listed, a file is served by \<^verbatim>\<open>serveContent\<close>.\<close>

fun serveNode :: "node \<Rightarrow> response" where
  "serveNode (Dir entries) = DirList (map entryName entries)"
| "serveNode (File bs) = Content bs"

text \<open>
  \<^verbatim>\<open>serveFile(w, r, fs, name, redirect)\<close> of \<^verbatim>\<open>net/http/fs.go\<close>, with \<open>url\<close> the
  request's \<^verbatim>\<open>URL.Path\<close> (it begins with a slash, so \<open>last url\<close> is its last byte):
  a request that ends in \<^verbatim>\<open>/index.html\<close> is redirected to \<^verbatim>\<open>./\<close>; a directory requested
  without a final slash is redirected to the name with the slash; a directory is answered
  with its \<^verbatim>\<open>index.html\<close> when it has one.
\<close>

definition serveFile :: "assetTree \<Rightarrow> string \<Rightarrow> string \<Rightarrow> bool \<Rightarrow> response" where
  "serveFile fsys url name redirect =
     (if HasSuffix url ''/index.html'' then LocalRedirect ''./''
      else (case ioFS_Open fsys name of
              Inl err \<Rightarrow> toHTTPError err
            | Inr f \<Rightarrow>
                if redirect \<and> IsDir f \<and> last url \<noteq> CHR ''/''
                  then LocalRedirect (path_Base url @ ''/'')
                else if redirect \<and> \<not> IsDir f \<and> last url = CHR ''/''
                  then (if path_Base url = ''/'' \<or> path_Base url = ''.''
                        then Error ''http: attempting to traverse a non-directory'' 500
                        else LocalRedirect (''../'' @ path_Base url))
                else if IsDir f then
                  (if url = [] \<or> last url \<noteq> CHR ''/''
                     then LocalRedirect (path_Base url @ ''/'')
                   else (case ioFS_Open fsys (TrimSuffix name ''/'' @ ''/index.html'') of
                           Inr ff \<Rightarrow> serveNode ff
                         | Inl err \<Rightarrow> serveNode f))
                else serveNode f))"

text \<open>\<^verbatim>\<open>http.FileServer(http.FS(fsys)).ServeHTTP\<close>.\<close>

definition FileServer_ServeHTTP :: "assetTree \<Rightarrow> string \<Rightarrow> response" where
  "FileServer_ServeHTTP fsys upath =
     (let url = (if \<not> HasPrefix upath ''/'' then ''/'' @ upath else upath)
      in serveFile fsys url (path_Clean url) True)"

text \<open>
  \<^verbatim>\<open>cleanPath\<close> of \<^verbatim>\<open>net/http/server.go\<close>: the canonical form of a request path, which
  keeps a final slash.
\<close>

definition cleanPath :: "string \<Rightarrow> string" where
  "cleanPath p =
     (if p = [] then ''/''
      else (let q = (if hd p \<noteq> CHR ''/'' then ''/'' @ p else p);
                np = path_Clean q
            in if last q = CHR ''/'' \<and> np \<noteq> ''/''
               then (if length q = length np + 1 \<and> HasPrefix q np then q else np @ ''/'')
               else np))"

text \<open>
  A request carries its path twice: \<^verbatim>\<open>r.URL.EscapedPath()\<close>, the path as the request line
  wrote it, and \<^verbatim>\<open>r.URL.Path\<close>, the same path with every percent-escape decoded. The
  request line \<^verbatim>\<open>GET /%2Fstyle.css\<close> has the escaped path \<^verbatim>\<open>/%2Fstyle.css\<close> and the
  path \<^verbatim>\<open>//style.css\<close>; for a request line without escapes the two are equal.
\<close>

record request =
  URL_EscapedPath :: string
  URL_Path :: string

text \<open>The request whose request line has the path \<open>p\<close> and no escapes.\<close>

definition plainRequest :: "string \<Rightarrow> request" where
  "plainRequest p = \<lparr>URL_EscapedPath = p, URL_Path = p\<rparr>"

text \<open>
  \<^verbatim>\<open>ServeMux.ServeHTTP\<close> of a mux whose only pattern is \<^verbatim>\<open>/\<close>. The mux cleans the
  escaped path (\<^verbatim>\<open>net/http\<close> of Go 1.22 and later); a request whose escaped path is not in canonical form is answered by a
  redirect to the cleaned path and never reaches the registered handler; every other
  request is given to the handler, since the pattern \<^verbatim>\<open>/\<close> matches all paths.
\<close>

definition ServeMux_ServeHTTP :: "(request \<Rightarrow> response) \<Rightarrow> request \<Rightarrow> response" where
  "ServeMux_ServeHTTP h r =
     (if cleanPath (URL_EscapedPath r) \<noteq> URL_EscapedPath r
      then Redirect (cleanPath (URL_EscapedPath r))
      else h r)"

subsection \<open>The static server of the source\<close>

text \<open>
  \<^verbatim>\<open>
  func fileExists(fsys fs.FS, filePath string) bool {
      if filePath == "/" {
          filePath = "index.html"
      }
      _, err := fsys.Open(strings.TrimPrefix(filePath, "/"))
      return err == nil
  }
  \<close>
\<close>

definition fileExists :: "assetTree \<Rightarrow> string \<Rightarrow> bool" where
  "fileExists fsys filePath =
     (let filePath' = (if filePath = ''/'' then ''index.html'' else filePath)
      in (case Open fsys (TrimPrefix filePath' ''/'') of Inl err \<Rightarrow> False | Inr f \<Rightarrow> True))"

text \<open>
  The function registered for the pattern \<^verbatim>\<open>/\<close> in \<^verbatim>\<open>startServer\<close>; it reads
  \<^verbatim>\<open>r.URL.Path\<close>, as the file server does. An existing name goes to the file server;
  otherwise \<^verbatim>\<open>index.html\<close> is opened, read and served, with 404 when it
  cannot be opened and 500 when it cannot be read.
\<close>

definition handler :: "assetTree \<Rightarrow> request \<Rightarrow> response" where
  "handler fsys r =
     (if fileExists fsys (URL_Path r) then FileServer_ServeHTTP fsys (URL_Path r)
      else (case Open fsys ''index.html'' of
              Inl err \<Rightarrow> Error ''index.html not found'' 404
            | Inr f \<Rightarrow>
                (case ReadAll f of
                   Inl err \<Rightarrow> Error ''failed to read index.html'' 500
                 | Inr content \<Rightarrow> Content content)))"

text \<open>
  \<^verbatim>\<open>startServer\<close>: \<^verbatim>\<open>fs.Sub\<close> fails exactly when the directory name is not a valid path;
  otherwise the mux with the handler above is returned. \<open>fsys\<close> is the view of the embedded
  files below \<open>dir\<close>.
\<close>

datatype subError = SubInvalid string

definition startServer :: "string \<Rightarrow> assetTree \<Rightarrow> subError + (request \<Rightarrow> response)" where
  "startServer dir fsys =
     (if \<not> ValidPath dir then Inl (SubInvalid dir)
      else Inr (ServeMux_ServeHTTP (handler fsys)))"

text \<open>The mux that \<^verbatim>\<open>startServer\<close> builds for the directory of the source.\<close>

definition serve :: "assetTree \<Rightarrow> request \<Rightarrow> response" where
  "serve fsys r = ServeMux_ServeHTTP (handler fsys) r"

subsection \<open>The runtime entry point\<close>

text \<open>
  A run of \<^verbatim>\<open>main\<close> is determined by what the operating system answers. The environment
  records these answers: the value of \<^verbatim>\<open>PORT\<close>, the platform, the error of
  \<^verbatim>\<open>cmd.Start()\<close>, whether the backend exits on its own while the server runs, the error
  with which \<^verbatim>\<open>ListenAndServe\<close> returns before any signal (for instance a port that is
  already bound), whether an interrupt or \<^verbatim>\<open>SIGTERM\<close> arrives, the error of
  \<^verbatim>\<open>server.Shutdown(ctx)\<close> (for instance the deadline of five seconds exceeded), and the
  error of \<^verbatim>\<open>Process.Kill()\<close>, if the system reports one.
\<close>

record env =
  envPORT :: "string option"
  envGOOS :: string
  startError :: "string option"
  backendExits :: bool
  listenError :: "string option"
  signalArrives :: bool
  shutdownError :: "string option"
  killError :: "string option"

text \<open>What a run does, in order, as far as the outside sees it.\<close>

datatype event =
    Log string
  | StartBackend string
  | ListenAndServe string
  | AwaitSignal
  | Shutdown
  | Kill

datatype procState = Running | Exited

text \<open>
  The state threaded through \<^verbatim>\<open>main\<close>: the events so far, which record what the run
  has done, and \<^verbatim>\<open>backendCmd.Process\<close> (\<open>None\<close> is \<^verbatim>\<open>nil\<close>) with the state of the child
  process.
\<close>

record state =
  trace :: "event list"
  process :: "procState option"

text \<open>
  How a function call ends: it returns, it ends the whole process through
  \<^verbatim>\<open>os.Exit(code)\<close>, or it blocks forever.
\<close>

datatype control = Returns | Exits nat | Blocks

definition emit :: "event \<Rightarrow> state \<Rightarrow> state" where
  "emit e st = st\<lparr>trace := trace st @ [e]\<rparr>"

text \<open>
  \<^verbatim>\<open>log.Fatalf\<close> prints the message and calls \<^verbatim>\<open>os.Exit(1)\<close>: the program ends at once
  and deferred functions are not run.
\<close>

definition log_Fatalf :: "string \<Rightarrow> state \<Rightarrow> state \<times> control" where
  "log_Fatalf msg st = (emit (Log msg) st, Exits 1)"

text \<open>\<^verbatim>\<open>os.Getenv("PORT")\<close>: the empty string when the variable is not set.\<close>

definition Getenv_PORT :: "env \<Rightarrow> string" where
  "Getenv_PORT e = (case envPORT e of None \<Rightarrow> [] | Some v \<Rightarrow> v)"

text \<open>
  \<^verbatim>\<open>Process.Kill()\<close> asks the system to kill the process and returns what the system
  answers; it does not wait for the process. When the system accepts the request the
  process is gone afterwards; when it reports an error nothing has changed. \<^verbatim>\<open>main\<close>
  never calls \<^verbatim>\<open>Wait\<close>, so the library does not know of a child that has exited and
  asks the system all the same: on Unix the signal is accepted for a child that has exited
  and was not waited for, and \<^verbatim>\<open>Kill\<close> returns \<^verbatim>\<open>nil\<close>.
\<close>

definition Process_Kill :: "env \<Rightarrow> procState \<Rightarrow> string option \<times> procState" where
  "Process_Kill e ps =
     (case killError e of
        None \<Rightarrow> (None, Exited)
      | Some err \<Rightarrow> (Some err, ps))"

definition getBackendBinaryName :: "string \<Rightarrow> string" where
  "getBackendBinaryName goos =
     (if goos = ''windows'' then ''./test'' @ ''.exe'' else ''./test'')"

text \<open>
  \<^verbatim>\<open>startBackend\<close>: logs, starts the command and returns the error of \<^verbatim>\<open>cmd.Start()\<close>;
  on success \<^verbatim>\<open>cmd.Process\<close> is set. The binary is \<^verbatim>\<open>./test\<close> in \<^verbatim>\<open>testDir/main.go\<close>
  (\<^verbatim>\<open>./backend-binary\<close> in the template), with \<^verbatim>\<open>.exe\<close> added on Windows.
\<close>

definition startBackend :: "env \<Rightarrow> state \<Rightarrow> state \<times> string option" where
  "startBackend e st =
     (let st1 = emit (Log ''Starting backend process...'') st;
          st2 = emit (StartBackend (getBackendBinaryName (envGOOS e))) st1
      in (case startError e of
            Some err \<Rightarrow> (st2, Some err)
          | None \<Rightarrow> (st2\<lparr>process := Some Running\<rparr>, None)))"

text \<open>
  The deferred function of \<^verbatim>\<open>main\<close>:
  \<^verbatim>\<open>if backendCmd != nil && backendCmd.Process != nil { backendCmd.Process.Kill() }\<close>.
  The error that \<^verbatim>\<open>Kill\<close> returns is bound to nothing, and the function returns.
\<close>

definition stopBackend :: "env \<Rightarrow> state \<Rightarrow> state \<times> control" where
  "stopBackend e st =
     (case process st of
        None \<Rightarrow> (st, Returns)
      | Some ps \<Rightarrow>
          (let (err, ps') = Process_Kill e ps
           in ((emit Kill st)\<lparr>process := Some ps'\<rparr>, Returns)))"

text \<open>
  \<^verbatim>\<open>startHTTPServer\<close>: the goroutine runs \<^verbatim>\<open>ListenAndServe\<close> and ends the process with
  \<^verbatim>\<open>log.Fatalf\<close> when it returns an error other than \<^verbatim>\<open>ErrServerClosed\<close>; the caller
  logs, waits for a signal, and shuts the server down with a timeout of five seconds,
  ending the process with \<^verbatim>\<open>log.Fatalf\<close> when \<^verbatim>\<open>Shutdown\<close> returns an error. While the
  caller waits the backend may exit on its own. (Of the possible interleavings of the
  goroutine and its caller the model takes the one where the caller logs first.)
\<close>

definition startHTTPServer :: "env \<Rightarrow> string \<Rightarrow> state \<Rightarrow> state \<times> control" where
  "startHTTPServer e addr st =
     (let st1 = emit (ListenAndServe addr) st;
          st2 = emit (Log (''HTTP server is running on '' @ addr)) st1;
          st3 = emit AwaitSignal st2
      in (case listenError e of
            Some err \<Rightarrow> log_Fatalf (''HTTP server failed: '' @ err) st3
          | None \<Rightarrow>
              if \<not> signalArrives e then (st3, Blocks)
              else
                (let st4 = (if backendExits e then st3\<lparr>process := map_option (\<lambda>ps. Exited) (process st3)\<rparr> else st3);
                     st5 = emit (Log ''Shutting down HTTP server...'') st4;
                     st6 = emit Shutdown st5
                 in (case shutdownError e of
                       Some err \<Rightarrow>
                         log_Fatalf (''HTTP server graceful shutdown failed: '' @ err) st6
                     | None \<Rightarrow> (emit (Log ''HTTP server stopped.'') st6, Returns)))))"

fun subErrorString :: "subError \<Rightarrow> string" where
  "subErrorString (SubInvalid dir) = ''sub '' @ dir @ '': invalid argument''"

text \<open>
  \<^verbatim>\<open>main\<close>, for the directory \<open>dir\<close> given to \<^verbatim>\<open>fs.Sub\<close> and the asset tree \<open>fsys\<close>.
  The deferred \<open>stopBackend\<close> runs when \<^verbatim>\<open>main\<close> returns, and only then; the process then
  exits with status 0. The log line that \<^verbatim>\<open>startServer\<close> prints before it returns the
  mux is recorded here.
\<close>

definition main :: "string \<Rightarrow> assetTree \<Rightarrow> env \<Rightarrow> state \<times> control" where
  "main dir fsys e =
     (let port = (if Getenv_PORT e = [] then ''8080'' else Getenv_PORT e);
          (st1, err) = startBackend e \<lparr>trace = [], process = None\<rparr>
      in (case err of
            Some msg \<Rightarrow> log_Fatalf (''Failed to start backend: '' @ msg) st1
          | None \<Rightarrow>
              (case startServer dir fsys of
                 Inl serr \<Rightarrow>
                   log_Fatalf (''Failed to start frontend server: '' @ subErrorString serr) st1
               | Inr mux \<Rightarrow>
                   (let st2 = emit (Log ''Frontend server is set up to serve all files in the embedded folder.'') st1;
                        (st3, c) = startHTTPServer e ('':'' @ port) st2
                    in (case c of
                          Returns \<Rightarrow>
                            (let (st4, c') = stopBackend e st3
                             in (st4, case c' of Returns \<Rightarrow> Exits 0 | other \<Rightarrow> other))
                        | Exits code \<Rightarrow> (st3, Exits code)
                        | Blocks \<Rightarrow> (st3, Blocks))))))"

subsection \<open>Example inputs\<close>

text \<open>
  An asset tree with an entry document, a style sheet and a directory; a tree without
  entry document; and a run on Linux without \<^verbatim>\<open>PORT\<close> in which everything succeeds and
  a signal arrives.
\<close>

definition exampleTree :: assetTree where
  "exampleTree =
     [(''index.html'', File ''<html>ok</html>''),
      (''style.css'', File ''body{}''),
      (''assets'', Dir [(''app.js'', File ''x'')])]"


definition exampleEnv :: env where
  "exampleEnv =
     \<lparr>envPORT = None, envGOOS = ''linux'', startError = None, backendExits = False,
      listenError = None, signalArrives = True, shutdownError = None, killError = None\<rparr>"

text \<open>
  Three more runs: the port is already bound; the graceful shutdown exceeds its five
  seconds; on Windows the backend exits on its own while the server runs, and the system
  refuses to terminate the process that has exited.
\<close>

definition portInUseEnv :: env where
  "portInUseEnv =
     exampleEnv\<lparr>listenError := Some ''listen tcp :8080: bind: address already in use''\<rparr>"

definition drainTimeoutEnv :: env where
  "drainTimeoutEnv = exampleEnv\<lparr>shutdownError := Some ''context deadline exceeded''\<rparr>"

definition backendGoneEnv :: env where
  "backendGoneEnv =
     exampleEnv\<lparr>envGOOS := ''windows'', backendExits := True,
       killError := Some ''TerminateProcess: Access is denied.''\<rparr>"

text \<open>
  The address that \<^verbatim>\<open>main\<close> gives the server, and the events of every run up to the
  wait for a signal.
\<close>

abbreviation serverAddr :: "env \<Rightarrow> string" where
  "serverAddr e \<equiv> '':'' @ (if Getenv_PORT e = [] then ''8080'' else Getenv_PORT e)"

abbreviation startupEvents :: "env \<Rightarrow> event list" where
  "startupEvents e \<equiv>
     [Log ''Starting backend process...'',
      StartBackend (getBackendBinaryName (envGOOS e)),
      Log ''Frontend server is set up to serve all files in the embedded folder.'',
      ListenAndServe (serverAddr e),
      Log (''HTTP server is running on '' @ serverAddr e),
      AwaitSignal]"


section \<open>Properties of the library functions\<close>

lemma splitSlash_not_Nil [simp]: "splitSlash s \<noteq> []"
  by (induction s) (auto split: list.splits)

lemma joinSlash_Cons_Cons: "joinSlash ((c # s) # ss) = c # joinSlash (s # ss)"
  by (cases ss) simp_all

lemma joinSlash_Nil_Cons: "ss \<noteq> [] \<Longrightarrow> joinSlash ([] # ss) = CHR ''/'' # joinSlash ss"
  by (cases ss) simp_all

lemma joinSlash_splitSlash [simp]: "joinSlash (splitSlash s) = s"
proof (induction s)
  case Nil
  show ?case by simp
next
  case (Cons c cs)
  show ?case
  proof (cases "c = CHR ''/''")
    case True
    then show ?thesis using Cons by (simp add: joinSlash_Nil_Cons)
  next
    case False
    obtain e es where split: "splitSlash cs = e # es"
      by (cases "splitSlash cs") simp_all
    with False Cons show ?thesis by (simp add: joinSlash_Cons_Cons)
  qed
qed


lemma last_splitSlash: "s \<noteq> [] \<Longrightarrow> last s = CHR ''/'' \<Longrightarrow> last (splitSlash s) = []"
proof (induction s)
  case Nil
  then show ?case by simp
next
  case (Cons c cs)
  obtain d ds where split: "splitSlash cs = d # ds"
    by (cases "splitSlash cs") simp_all
  have single: "splitSlash cs = [[]] \<Longrightarrow> cs = []"
    using joinSlash_splitSlash [of cs] by simp
  from Cons split single show ?case by (cases "cs = []") (auto split: if_splits)
qed

lemma cleanElems_valid:
  "list_all validElem es \<Longrightarrow> cleanElems rooted es out = rev out @ es"
  by (induction es arbitrary: out) (simp_all add: validElem_def)

lemma valid_no_trailing_slash:
  assumes "list_all validElem (splitSlash name)"
  shows "name \<noteq> [] \<and> last name \<noteq> CHR ''/''"
proof -
  have "validElem (last (splitSlash name))"
    using assms by (simp add: list_all_iff)
  then have nonempty: "last (splitSlash name) \<noteq> []" by (simp add: validElem_def)
  then have "name \<noteq> []" by auto
  moreover have "last name \<noteq> CHR ''/''"
    using nonempty last_splitSlash \<open>name \<noteq> []\<close> by blast
  ultimately show ?thesis by simp
qed

lemma ValidPath_elems: "ValidPath name \<Longrightarrow> name \<noteq> ''.'' \<Longrightarrow> list_all validElem (splitSlash name)"
  by (simp add: ValidPath_def)

lemma path_Clean_valid:
  "list_all validElem (splitSlash name) \<Longrightarrow> path_Clean (CHR ''/'' # name) = CHR ''/'' # name"
  by (simp add: path_Clean_def cleanElems_valid)

lemma cleanPath_valid:
  assumes "list_all validElem (splitSlash name)"
  shows "cleanPath (CHR ''/'' # name) = CHR ''/'' # name"
  using valid_no_trailing_slash [OF assms] path_Clean_valid [OF assms]
  by (simp add: cleanPath_def Let_def)

lemma TrimPrefix_slash [simp]: "TrimPrefix (CHR ''/'' # s) ''/'' = s"
  by (simp add: TrimPrefix_def HasPrefix_def)

lemma HasPrefix_slash [simp]: "HasPrefix (CHR ''/'' # s) ''/''"
  by (simp add: HasPrefix_def)

lemma Open_valid: "Open fsys name = Inr n \<Longrightarrow> ValidPath name"
  by (auto simp: Open_def split: if_splits)

lemma Open_File_not_dot: "Open fsys name = Inr (File bs) \<Longrightarrow> name \<noteq> ''.''"
  by (auto simp: Open_def split: if_splits)

lemma TrimPrefix_index [simp]: "TrimPrefix ''index.html'' ''/'' = ''index.html''"
  by (simp add: TrimPrefix_def HasPrefix_def)

lemma path_Clean_root [simp]: "path_Clean ''/'' = ''/''"
  by (simp add: path_Clean_def)

lemma cleanPath_root [simp]: "cleanPath ''/'' = ''/''"
  by (simp add: cleanPath_def)

lemma FileServer_root:
  assumes "Open fsys ''index.html'' = Inr (File bs)"
  shows "FileServer_ServeHTTP fsys ''/'' = Content bs"
proof -
  have "ValidPath ''.''" by (simp add: ValidPath_def)
  then have root: "ioFS_Open fsys ''/'' = Inr (Dir fsys)"
    by (simp add: ioFS_Open_def Open_def)
  have idx: "ioFS_Open fsys ''/index.html'' = Inr (File bs)"
    using assms by (simp add: ioFS_Open_def)
  have suf: "\<not> HasSuffix ''/'' ''/index.html''" by (simp add: HasSuffix_def)
  have trim: "TrimSuffix ''/'' ''/'' = []" by (simp add: TrimSuffix_def HasSuffix_def)
  show ?thesis
    using root idx suf trim
    by (simp add: FileServer_ServeHTTP_def serveFile_def)
qed









text \<open>For a valid directory name, \<^verbatim>\<open>startServer\<close> returns the mux \<open>serve fsys\<close>.\<close>

lemma startServer_serve: "ValidPath dir \<Longrightarrow> startServer dir fsys = Inr (serve fsys)"
proof -
  have "ServeMux_ServeHTTP (handler fsys) = serve fsys"
    by (rule ext) (simp add: serve_def)
  then show "ValidPath dir \<Longrightarrow> startServer dir fsys = Inr (serve fsys)"
    by (simp add: startServer_def)
qed

section \<open>The static server\<close>

text \<open>
  Claim C2, as amended. A request for \<^verbatim>\<open>/name\<close>, where \<open>name\<close> opens as a regular file
  with the bytes \<open>bs\<close>, is answered with status 200 and the body \<open>bs\<close>, unless the path ends
  in \<^verbatim>\<open>/index.html\<close>: then the file server answers with a redirect (301) to \<^verbatim>\<open>./\<close>.
  This holds for the request written without escapes, and for every request with this
  path whose escaped path is in canonical form.
\<close>

theorem existing_file_served:
  assumes isfile: "Open fsys name = Inr (File bs)"
  shows "serve fsys (plainRequest (''/'' @ name)) =
           (if HasSuffix (''/'' @ name) ''/index.html'' then LocalRedirect ''./'' else Content bs)
         \<and> status (serve fsys (plainRequest (''/'' @ name))) =
           (if HasSuffix (''/'' @ name) ''/index.html'' then 301 else 200)
         \<and> (\<forall>esc. cleanPath esc = esc \<longrightarrow>
               serve fsys \<lparr>URL_EscapedPath = esc, URL_Path = ''/'' @ name\<rparr> =
                 (if HasSuffix (''/'' @ name) ''/index.html'' then LocalRedirect ''./''
                  else Content bs))"
proof -
  let ?answer = "if HasSuffix (''/'' @ name) ''/index.html'' then LocalRedirect ''./''
                 else Content bs"
  have elems: "list_all validElem (splitSlash name)"
    using ValidPath_elems Open_valid [OF isfile] Open_File_not_dot [OF isfile] by blast
  have ne: "name \<noteq> []" and nolast: "last name \<noteq> CHR ''/''"
    using valid_no_trailing_slash [OF elems] by simp_all
  have canon: "cleanPath (CHR ''/'' # name) = CHR ''/'' # name"
    by (rule cleanPath_valid [OF elems])
  have ex: "fileExists fsys (CHR ''/'' # name)"
    using isfile ne by (simp add: fileExists_def)
  have "FileServer_ServeHTTP fsys (CHR ''/'' # name) =
          (if HasSuffix (CHR ''/'' # name) ''/index.html'' then LocalRedirect ''./'' else Content bs)"
    using isfile ne nolast path_Clean_valid [OF elems]
    by (simp add: FileServer_ServeHTTP_def serveFile_def ioFS_Open_def)
  with ex have h: "handler fsys \<lparr>URL_EscapedPath = esc, URL_Path = ''/'' @ name\<rparr> = ?answer"
    for esc by (simp add: handler_def)
  from h canon have plain: "serve fsys (plainRequest (''/'' @ name)) = ?answer"
    by (simp add: serve_def ServeMux_ServeHTTP_def plainRequest_def)
  from h have "cleanPath esc = esc \<Longrightarrow>
      serve fsys \<lparr>URL_EscapedPath = esc, URL_Path = ''/'' @ name\<rparr> = ?answer" for esc
    by (simp add: serve_def ServeMux_ServeHTTP_def)
  with plain show ?thesis by simp
qed

theorem existing_file_served_witness:
  "Open exampleTree ''style.css'' = Inr (File ''body{}'')
   \<and> serve exampleTree (plainRequest ''/style.css'') = Content ''body{}''
   \<and> status (serve exampleTree (plainRequest ''/style.css'')) = 200
   \<and> cleanPath ''/style%2Ecss'' = ''/style%2Ecss''
   \<and> serve exampleTree \<lparr>URL_EscapedPath = ''/style%2Ecss'', URL_Path = ''/style.css''\<rparr>
       = Content ''body{}''"
proof -
  have isfile: "Open exampleTree ''style.css'' = Inr (File ''body{}'')" by code_simp
  have nosuf: "\<not> HasSuffix ''/style.css'' ''/index.html''" by code_simp
  have canon: "cleanPath ''/style%2Ecss'' = ''/style%2Ecss''" by code_simp
  from existing_file_served [OF isfile] nosuf isfile canon show ?thesis by simp
qed

text \<open>
  The claim as stated fails for the entry document itself: \<^verbatim>\<open>index.html\<close> is an existing
  file, and the request \<^verbatim>\<open>/index.html\<close> is answered with status 301.
\<close>

theorem index_html_redirected_counterexample:
  "Open exampleTree ''index.html'' = Inr (File ''<html>ok</html>'')
   \<and> serve exampleTree (plainRequest ''/index.html'') = LocalRedirect ''./''
   \<and> status (serve exampleTree (plainRequest ''/index.html'')) \<noteq> 200"
  by code_simp







text \<open>
  Claim C6, as amended. When \<^verbatim>\<open>index.html\<close> is a regular file at the root with the bytes
  \<open>bs\<close>, \<^verbatim>\<open>fileExists\<close> holds of \<^verbatim>\<open>/\<close> and of \<^verbatim>\<open>/index.html\<close> alike and both requests
  go to the file server; the request \<^verbatim>\<open>/\<close> is answered with status 200 and the body
  \<open>bs\<close>, and the request \<^verbatim>\<open>/index.html\<close> is answered with a redirect (301) to \<^verbatim>\<open>./\<close>,
  which is the path \<^verbatim>\<open>/\<close>.
\<close>

theorem root_versus_index:
  assumes index: "Open fsys ''index.html'' = Inr (File bs)"
  shows "fileExists fsys ''/'' \<and> fileExists fsys ''/index.html''
    \<and> serve fsys (plainRequest ''/'') = Content bs
    \<and> serve fsys (plainRequest ''/index.html'') = LocalRedirect ''./''"
proof -
  have exroot: "fileExists fsys ''/''" using index by (simp add: fileExists_def)
  then have root: "serve fsys (plainRequest ''/'') = Content bs"
    using FileServer_root [OF index]
    by (simp add: serve_def ServeMux_ServeHTTP_def handler_def plainRequest_def)
  have canon: "cleanPath ''/index.html'' = ''/index.html''" by code_simp
  have ex: "fileExists fsys ''/index.html''" using index by (simp add: fileExists_def)
  have "FileServer_ServeHTTP fsys ''/index.html'' = LocalRedirect ''./''"
    by (simp add: FileServer_ServeHTTP_def serveFile_def HasSuffix_def)
  with canon ex have "serve fsys (plainRequest ''/index.html'') = LocalRedirect ''./''"
    by (simp add: serve_def ServeMux_ServeHTTP_def handler_def plainRequest_def)
  with root exroot ex show ?thesis by simp
qed

theorem root_versus_index_witness:
  "Open exampleTree ''index.html'' = Inr (File ''<html>ok</html>'')
   \<and> serve exampleTree (plainRequest ''/'') = Content ''<html>ok</html>''
   \<and> serve exampleTree (plainRequest ''/index.html'') = LocalRedirect ''./''"
proof -
  have index: "Open exampleTree ''index.html'' = Inr (File ''<html>ok</html>'')" by code_simp
  from root_versus_index [OF index] index show ?thesis by simp
qed

text \<open>
  The claim as stated fails: with the entry document a literal file, the two requests
  differ in status.
\<close>

theorem root_index_differ_counterexample:
  "Open exampleTree ''index.html'' = Inr (File ''<html>ok</html>'')
   \<and> status (serve exampleTree (plainRequest ''/'')) = 200
   \<and> status (serve exampleTree (plainRequest ''/index.html'')) = 301
   \<and> serve exampleTree (plainRequest ''/'') \<noteq> serve exampleTree (plainRequest ''/index.html'')"
  by code_simp




section \<open>Properties of the runtime entry point\<close>

lemma startBackend_result:
  "startBackend e \<lparr>trace = [], process = None\<rparr> =
     (\<lparr>trace = [Log ''Starting backend process...'',
                 StartBackend (getBackendBinaryName (envGOOS e))],
       process = (case startError e of None \<Rightarrow> Some Running | Some err \<Rightarrow> None)\<rparr>,
      startError e)"
  by (cases "startError e") (simp_all add: startBackend_def emit_def Let_def)

lemma startHTTPServer_listen_fails:
  "listenError e = Some err \<Longrightarrow>
   startHTTPServer e addr \<lparr>trace = tr, process = pr\<rparr> =
     (\<lparr>trace = tr @ [ListenAndServe addr, Log (''HTTP server is running on '' @ addr),
                      AwaitSignal, Log (''HTTP server failed: '' @ err)],
       process = pr\<rparr>, Exits 1)"
  by (simp add: startHTTPServer_def log_Fatalf_def emit_def Let_def)

lemma startHTTPServer_blocks:
  "listenError e = None \<Longrightarrow> \<not> signalArrives e \<Longrightarrow>
   startHTTPServer e addr \<lparr>trace = tr, process = pr\<rparr> =
     (\<lparr>trace = tr @ [ListenAndServe addr, Log (''HTTP server is running on '' @ addr),
                      AwaitSignal],
       process = pr\<rparr>, Blocks)"
  by (simp add: startHTTPServer_def emit_def Let_def)

lemma startHTTPServer_shutdown_fails:
  "listenError e = None \<Longrightarrow> signalArrives e \<Longrightarrow> shutdownError e = Some err \<Longrightarrow>
   startHTTPServer e addr \<lparr>trace = tr, process = pr\<rparr> =
     (\<lparr>trace = tr @ [ListenAndServe addr, Log (''HTTP server is running on '' @ addr),
                      AwaitSignal, Log ''Shutting down HTTP server...'', Shutdown,
                      Log (''HTTP server graceful shutdown failed: '' @ err)],
       process = (if backendExits e then map_option (\<lambda>ps. Exited) pr else pr)\<rparr>, Exits 1)"
  by (simp add: startHTTPServer_def log_Fatalf_def emit_def Let_def)

lemma startHTTPServer_returns:
  "listenError e = None \<Longrightarrow> signalArrives e \<Longrightarrow> shutdownError e = None \<Longrightarrow>
   startHTTPServer e addr \<lparr>trace = tr, process = pr\<rparr> =
     (\<lparr>trace = tr @ [ListenAndServe addr, Log (''HTTP server is running on '' @ addr),
                      AwaitSignal, Log ''Shutting down HTTP server...'', Shutdown,
                      Log ''HTTP server stopped.''],
       process = (if backendExits e then map_option (\<lambda>ps. Exited) pr else pr)\<rparr>, Returns)"
  by (simp add: startHTTPServer_def emit_def Let_def)


lemma main_start_fails:
  "startError e = Some err \<Longrightarrow>
   main dir fsys e =
     (\<lparr>trace = [Log ''Starting backend process...'',
                 StartBackend (getBackendBinaryName (envGOOS e)),
                 Log (''Failed to start backend: '' @ err)],
       process = None\<rparr>, Exits 1)"
  by (simp add: main_def startBackend_result log_Fatalf_def emit_def Let_def)

lemma main_sub_fails:
  "startError e = None \<Longrightarrow> \<not> ValidPath dir \<Longrightarrow>
   main dir fsys e =
     (\<lparr>trace = [Log ''Starting backend process...'',
                 StartBackend (getBackendBinaryName (envGOOS e)),
                 Log (''Failed to start frontend server: sub '' @ dir @ '': invalid argument'')],
       process = Some Running\<rparr>, Exits 1)"
  by (simp add: main_def startBackend_result startServer_def log_Fatalf_def emit_def Let_def)

lemma main_listen_fails:
  "startError e = None \<Longrightarrow> ValidPath dir \<Longrightarrow> listenError e = Some err \<Longrightarrow>
   main dir fsys e =
     (\<lparr>trace = startupEvents e @ [Log (''HTTP server failed: '' @ err)],
       process = Some Running\<rparr>, Exits 1)"
  by (simp add: main_def startBackend_result startServer_def startHTTPServer_listen_fails
      emit_def Let_def)

lemma main_blocks:
  "startError e = None \<Longrightarrow> ValidPath dir \<Longrightarrow> listenError e = None \<Longrightarrow> \<not> signalArrives e \<Longrightarrow>
   main dir fsys e = (\<lparr>trace = startupEvents e, process = Some Running\<rparr>, Blocks)"
  by (simp add: main_def startBackend_result startServer_def startHTTPServer_blocks
      emit_def Let_def)

lemma main_shutdown_fails:
  "startError e = None \<Longrightarrow> ValidPath dir \<Longrightarrow> listenError e = None \<Longrightarrow> signalArrives e \<Longrightarrow>
   shutdownError e = Some err \<Longrightarrow>
   main dir fsys e =
     (\<lparr>trace = startupEvents e @
                [Log ''Shutting down HTTP server...'', Shutdown,
                 Log (''HTTP server graceful shutdown failed: '' @ err)],
       process = Some (if backendExits e then Exited else Running)\<rparr>, Exits 1)"
  by (simp add: main_def startBackend_result startServer_def startHTTPServer_shutdown_fails
      emit_def Let_def)

lemma main_returns:
  "startError e = None \<Longrightarrow> ValidPath dir \<Longrightarrow> listenError e = None \<Longrightarrow> signalArrives e \<Longrightarrow>
   shutdownError e = None \<Longrightarrow>
   main dir fsys e =
     (\<lparr>trace = startupEvents e @
                [Log ''Shutting down HTTP server...'', Shutdown,
                 Log ''HTTP server stopped.'', Kill],
       process = Some (if killError e = None \<or> backendExits e then Exited else Running)\<rparr>,
      Exits 0)"
  by (cases "killError e")
    (simp_all add: main_def startBackend_result startServer_def startHTTPServer_returns
      stopBackend_def Process_Kill_def emit_def Let_def)


lemma main_scenarios:
  obtains (start_fails) err where "startError e = Some err"
  | (sub_fails) "startError e = None" "\<not> ValidPath dir"
  | (listen_fails) err where "startError e = None" "ValidPath dir" "listenError e = Some err"
  | (blocks) "startError e = None" "ValidPath dir" "listenError e = None" "\<not> signalArrives e"
  | (shutdown_fails) err where "startError e = None" "ValidPath dir" "listenError e = None"
      "signalArrives e" "shutdownError e = Some err"
  | (returns) "startError e = None" "ValidPath dir" "listenError e = None"
      "signalArrives e" "shutdownError e = None"
proof (cases "startError e")
  case (Some err)
  then show ?thesis by (rule start_fails)
next
  case noerr: None
  show ?thesis
  proof (cases "ValidPath dir")
    case False
    with noerr show ?thesis by (rule sub_fails)
  next
    case valid: True
    show ?thesis
    proof (cases "listenError e")
      case (Some err)
      with noerr valid show ?thesis by (rule listen_fails)
    next
      case listens: None
      show ?thesis
      proof (cases "signalArrives e")
        case False
        with noerr valid listens show ?thesis by (rule blocks)
      next
        case sig: True
        show ?thesis
        proof (cases "shutdownError e")
          case None
          with noerr valid listens sig show ?thesis by (rule returns)
        next
          case (Some err)
          with noerr valid listens sig show ?thesis by (rule shutdown_fails)
        qed
      qed
    qed
  qed
qed

lemma main_trace_prefix:
  "\<exists>rest. trace (fst (main dir fsys e)) =
     Log ''Starting backend process...'' # StartBackend (getBackendBinaryName (envGOOS e)) # rest"
proof (cases rule: main_scenarios [where e = e and dir = dir])
  case (start_fails err)
  then show ?thesis by (simp add: main_start_fails)
next
  case sub_fails
  then show ?thesis by (simp add: main_sub_fails)
next
  case (listen_fails err)
  then show ?thesis by (simp add: main_listen_fails)
next
  case blocks
  then show ?thesis by (simp add: main_blocks)
next
  case (shutdown_fails err)
  then show ?thesis by (simp add: main_shutdown_fails)
next
  case returns
  then show ?thesis by (simp add: main_returns)
qed

lemma listen_needs_backend:
  "ListenAndServe addr \<in> set (trace (fst (main dir fsys e))) \<Longrightarrow> startError e = None"
proof (cases "startError e")
  case None
  then show ?thesis by simp
next
  case (Some err)
  assume "ListenAndServe addr \<in> set (trace (fst (main dir fsys e)))"
  with Some show ?thesis by (simp add: main_start_fails)
qed

lemma second_before:
  assumes "a # b # rest = pre @ x # post" "a \<noteq> x" "b \<noteq> x"
  shows "b \<in> set pre"
proof (cases pre)
  case Nil
  with assms show ?thesis by simp
next
  case (Cons p ps)
  with assms show ?thesis by (cases ps) simp_all
qed

text \<open>
  Claim C8. In every run, whatever the environment answers, every call of
  \<^verbatim>\<open>ListenAndServe\<close> comes after the start of the backend command, and it happens only
  when that start succeeded.
\<close>

theorem backend_started_before_listen:
  assumes run: "trace (fst (main dir fsys e)) = pre @ ListenAndServe addr # post"
  shows "StartBackend (getBackendBinaryName (envGOOS e)) \<in> set pre \<and> startError e = None"
proof -
  obtain rest where "trace (fst (main dir fsys e)) =
      Log ''Starting backend process...'' # StartBackend (getBackendBinaryName (envGOOS e)) # rest"
    using main_trace_prefix by blast
  with run have "Log ''Starting backend process...'' #
      StartBackend (getBackendBinaryName (envGOOS e)) # rest = pre @ ListenAndServe addr # post"
    by simp
  then have "StartBackend (getBackendBinaryName (envGOOS e)) \<in> set pre"
    by (rule second_before) simp_all
  moreover have "ListenAndServe addr \<in> set (trace (fst (main dir fsys e)))"
    using run by simp
  then have "startError e = None" by (rule listen_needs_backend)
  ultimately show ?thesis by simp
qed


theorem backend_started_before_listen_witness:
  "trace (fst (main ''front-end/out'' exampleTree exampleEnv)) =
     [Log ''Starting backend process...'', StartBackend ''./test'',
      Log ''Frontend server is set up to serve all files in the embedded folder.'']
     @ ListenAndServe '':8080'' #
     [Log ''HTTP server is running on :8080'', AwaitSignal,
      Log ''Shutting down HTTP server...'', Shutdown, Log ''HTTP server stopped.'', Kill]
   \<and> StartBackend (getBackendBinaryName (envGOOS exampleEnv))
       \<in> set [Log ''Starting backend process...'', StartBackend ''./test'',
               Log ''Frontend server is set up to serve all files in the embedded folder.'']
   \<and> startError exampleEnv = None"
proof -
  have run: "trace (fst (main ''front-end/out'' exampleTree exampleEnv)) =
     [Log ''Starting backend process...'', StartBackend ''./test'',
      Log ''Frontend server is set up to serve all files in the embedded folder.'']
     @ ListenAndServe '':8080'' #
     [Log ''HTTP server is running on :8080'', AwaitSignal,
      Log ''Shutting down HTTP server...'', Shutdown, Log ''HTTP server stopped.'', Kill]"
    by code_simp
  from backend_started_before_listen [OF run] run show ?thesis by simp
qed

text \<open>
  Claim C9. When the backend has started and the static server is built, the server
  listens on exactly one address: the port is the value of \<^verbatim>\<open>PORT\<close>, and it is
  \<^verbatim>\<open>8080\<close> when the variable is absent (or empty).
\<close>

theorem listen_port:
  assumes "startError e = None" "ValidPath dir"
  shows "ListenAndServe a \<in> set (trace (fst (main dir fsys e))) \<longleftrightarrow>
           a = '':'' @ (case envPORT e of
                          None \<Rightarrow> ''8080''
                        | Some p \<Rightarrow> if p = [] then ''8080'' else p)"
proof (cases rule: main_scenarios [where e = e and dir = dir])
  case (start_fails err)
  with assms show ?thesis by simp
next
  case sub_fails
  with assms show ?thesis by simp
next
  case (listen_fails err)
  then show ?thesis
    by (auto simp add: main_listen_fails Getenv_PORT_def split: option.splits)
next
  case blocks
  then show ?thesis
    by (auto simp add: main_blocks Getenv_PORT_def split: option.splits)
next
  case (shutdown_fails err)
  then show ?thesis
    by (auto simp add: main_shutdown_fails Getenv_PORT_def split: option.splits)
next
  case returns
  then show ?thesis
    by (auto simp add: main_returns Getenv_PORT_def split: option.splits)
qed

theorem listen_port_witness:
  "startError exampleEnv = None \<and> ValidPath ''front-end/out'' \<and> envPORT exampleEnv = None
   \<and> ListenAndServe '':8080'' \<in> set (trace (fst (main ''front-end/out'' exampleTree exampleEnv)))
   \<and> startError (exampleEnv\<lparr>envPORT := Some ''3000''\<rparr>) = None
   \<and> ListenAndServe '':3000''
       \<in> set (trace (fst (main ''front-end/out'' exampleTree (exampleEnv\<lparr>envPORT := Some ''3000''\<rparr>))))"
proof -
  have started: "startError exampleEnv = None" by code_simp
  have started': "startError (exampleEnv\<lparr>envPORT := Some ''3000''\<rparr>) = None" by code_simp
  have valid: "ValidPath ''front-end/out''" by code_simp
  have absent: "envPORT exampleEnv = None" by code_simp
  from listen_port [OF started valid, of "'':8080''" exampleTree]
    listen_port [OF started' valid, of "'':3000''" exampleTree] started started' valid absent
  show ?thesis by simp
qed


lemma kill_iff_normal_return:
  "Kill \<in> set (trace (fst (main dir fsys e))) \<longleftrightarrow> snd (main dir fsys e) = Exits 0"
proof (cases rule: main_scenarios [where e = e and dir = dir])
  case (start_fails err)
  then show ?thesis by (simp add: main_start_fails)
next
  case sub_fails
  then show ?thesis by (simp add: main_sub_fails)
next
  case (listen_fails err)
  then show ?thesis by (simp add: main_listen_fails)
next
  case blocks
  then show ?thesis by (simp add: main_blocks)
next
  case (shutdown_fails err)
  then show ?thesis by (simp add: main_shutdown_fails)
next
  case returns
  then show ?thesis by (simp add: main_returns)
qed

text \<open>
  Claim C3 fails on the code. When the listener cannot bind its port, the goroutine ends
  the process with \<^verbatim>\<open>log.Fatalf\<close>: the exit status is 1, the deferred function has not
  run, no termination of the backend was requested, and the backend is still running.
\<close>

theorem listen_failure_skips_kill:
  "main ''front-end/out'' exampleTree portInUseEnv =
     (\<lparr>trace =
         [Log ''Starting backend process...'', StartBackend ''./test'',
          Log ''Frontend server is set up to serve all files in the embedded folder.'',
          ListenAndServe '':8080'', Log ''HTTP server is running on :8080'', AwaitSignal,
          Log ''HTTP server failed: listen tcp :8080: bind: address already in use''],
       process = Some Running\<rparr>,
      Exits 1)
   \<and> Kill \<notin> set (trace (fst (main ''front-end/out'' exampleTree portInUseEnv)))"
  by code_simp

text \<open>
  Claim C4, as amended. In a run that reaches the shutdown (the backend started, the
  static server was built, the listener did not fail, a signal arrived):
  when \<^verbatim>\<open>Shutdown\<close> succeeds, the backend is asked to terminate and the process exits
  with status 0, whatever \<^verbatim>\<open>Kill\<close> returns: an error of it is not fatal, and nothing is
  logged after \<^verbatim>\<open>HTTP server stopped.\<close>;
  when \<^verbatim>\<open>Shutdown\<close> returns an error, the error is logged and is fatal: the process
  exits with status 1.
\<close>

theorem shutdown_errors:
  assumes "startError e = None" "ValidPath dir" "listenError e = None" "signalArrives e"
  shows "(shutdownError e = None \<longrightarrow>
            snd (main dir fsys e) = Exits 0
            \<and> trace (fst (main dir fsys e)) =
                startupEvents e @
                  [Log ''Shutting down HTTP server...'', Shutdown,
                   Log ''HTTP server stopped.'', Kill])
       \<and> (\<forall>err. shutdownError e = Some err \<longrightarrow>
            snd (main dir fsys e) = Exits 1
            \<and> Log (''HTTP server graceful shutdown failed: '' @ err)
                \<in> set (trace (fst (main dir fsys e))))"
  using assms
  by (simp add: main_returns main_shutdown_fails)

theorem shutdown_errors_witness:
  "startError backendGoneEnv = None \<and> ValidPath ''front-end/out''
   \<and> listenError backendGoneEnv = None \<and> signalArrives backendGoneEnv
   \<and> shutdownError backendGoneEnv = None
   \<and> killError backendGoneEnv = Some ''TerminateProcess: Access is denied.''
   \<and> snd (main ''front-end/out'' exampleTree backendGoneEnv) = Exits 0
   \<and> trace (fst (main ''front-end/out'' exampleTree backendGoneEnv)) =
         [Log ''Starting backend process...'', StartBackend ''./test.exe'',
          Log ''Frontend server is set up to serve all files in the embedded folder.'',
          ListenAndServe '':8080'', Log ''HTTP server is running on :8080'', AwaitSignal,
          Log ''Shutting down HTTP server...'', Shutdown, Log ''HTTP server stopped.'', Kill]"
proof -
  have h: "startError backendGoneEnv = None" "ValidPath ''front-end/out''"
    "listenError backendGoneEnv = None" "signalArrives backendGoneEnv"
    by code_simp+
  have ok: "shutdownError backendGoneEnv = None"
    "killError backendGoneEnv = Some ''TerminateProcess: Access is denied.''"
    by code_simp+
  have port: "Getenv_PORT backendGoneEnv = []" "envGOOS backendGoneEnv = ''windows''"
    by code_simp+
  from shutdown_errors [OF h, of exampleTree] h ok port show ?thesis
    by (simp add: getBackendBinaryName_def)
qed

text \<open>
  The claim as stated fails in two ways. A graceful shutdown that exceeds its five
  seconds is fatal: the process exits with status 1 and \<^verbatim>\<open>HTTP server stopped.\<close> is
  never logged. And an error of the termination request is not logged: in the run where
  \<^verbatim>\<open>Kill\<close> returns an error, the log lines are those of every other run.
\<close>

theorem drain_timeout_fatal_counterexample:
  "snd (main ''front-end/out'' exampleTree drainTimeoutEnv) = Exits 1
   \<and> Log ''HTTP server graceful shutdown failed: context deadline exceeded''
       \<in> set (trace (fst (main ''front-end/out'' exampleTree drainTimeoutEnv)))
   \<and> Log ''HTTP server stopped.''
       \<notin> set (trace (fst (main ''front-end/out'' exampleTree drainTimeoutEnv)))
   \<and> killError backendGoneEnv = Some ''TerminateProcess: Access is denied.''
   \<and> trace (fst (main ''front-end/out'' exampleTree backendGoneEnv)) =
         [Log ''Starting backend process...'', StartBackend ''./test.exe'',
          Log ''Frontend server is set up to serve all files in the embedded folder.'',
          ListenAndServe '':8080'', Log ''HTTP server is running on :8080'', AwaitSignal,
          Log ''Shutting down HTTP server...'', Shutdown, Log ''HTTP server stopped.'', Kill]"
  by code_simp

lemma stopBackend_result:
  "stopBackend e st =
     (case process st of
        None \<Rightarrow> (st, Returns)
      | Some ps \<Rightarrow>
          (\<lparr>trace = trace st @ [Kill],
            process = Some (case killError e of None \<Rightarrow> Exited | Some err \<Rightarrow> ps)\<rparr>,
           Returns))"
  by (cases "process st"; cases "killError e")
    (simp_all add: stopBackend_def Process_Kill_def emit_def)

lemma main_killError_irrelevant:
  assumes "backendExits e"
  shows "main dir fsys (e\<lparr>killError := k\<rparr>) = main dir fsys e"
proof (cases rule: main_scenarios [where e = e and dir = dir])
  case (start_fails err)
  then show ?thesis
    using main_start_fails [of "e\<lparr>killError := k\<rparr>" err dir fsys]
    by (simp add: main_start_fails)
next
  case sub_fails
  then show ?thesis
    using main_sub_fails [of "e\<lparr>killError := k\<rparr>" dir fsys]
    by (simp add: main_sub_fails)
next
  case (listen_fails err)
  then show ?thesis
    using main_listen_fails [of "e\<lparr>killError := k\<rparr>" dir err fsys]
    by (simp add: main_listen_fails Getenv_PORT_def)
next
  case blocks
  then show ?thesis
    using main_blocks [of "e\<lparr>killError := k\<rparr>" dir fsys]
    by (simp add: main_blocks Getenv_PORT_def)
next
  case (shutdown_fails err)
  then show ?thesis
    using main_shutdown_fails [of "e\<lparr>killError := k\<rparr>" dir err fsys]
    by (simp add: main_shutdown_fails Getenv_PORT_def)
next
  case returns
  then show ?thesis
    using assms main_returns [of "e\<lparr>killError := k\<rparr>" dir fsys]
    by (simp add: main_returns Getenv_PORT_def)
qed

text \<open>
  Claim C7. Whatever the system answers to \<^verbatim>\<open>Kill\<close>, the deferred function that
  terminates the backend returns: it does not block and does not end the process. Run a
  second time, it leaves the backend as the first run left it. On a backend that has
  already exited it changes nothing: the state afterwards is the state before, with the
  request added to the record of events and no log line. And in a run whose backend has
  exited on its own the answer of \<^verbatim>\<open>Kill\<close> reaches nobody: with an error and without, the
  run is the same in its events, its final state and its exit status.
\<close>

theorem stopBackend_idempotent:
  "snd (stopBackend e st) = Returns
   \<and> process (fst (stopBackend e (fst (stopBackend e st)))) = process (fst (stopBackend e st))
   \<and> (process st = Some Exited \<longrightarrow>
        stopBackend e st = (st\<lparr>trace := trace st @ [Kill]\<rparr>, Returns))
   \<and> (backendExits e \<longrightarrow>
        main dir fsys (e\<lparr>killError := Some err\<rparr>) = main dir fsys (e\<lparr>killError := None\<rparr>))"
proof -
  have a: "snd (stopBackend e st) = Returns"
    by (cases "process st") (simp_all add: stopBackend_result)
  have b: "process (fst (stopBackend e (fst (stopBackend e st)))) =
      process (fst (stopBackend e st))"
    by (cases "process st"; cases "killError e") (simp_all add: stopBackend_result)
  have c: "process st = Some Exited \<Longrightarrow>
      stopBackend e st = (st\<lparr>trace := trace st @ [Kill]\<rparr>, Returns)"
    by (cases "killError e") (simp_all add: stopBackend_result)
  have d: "backendExits e \<Longrightarrow>
      main dir fsys (e\<lparr>killError := Some err\<rparr>) = main dir fsys (e\<lparr>killError := None\<rparr>)"
    using main_killError_irrelevant [of e dir fsys "Some err"]
      main_killError_irrelevant [of e dir fsys None] by simp
  from a b c d show ?thesis by blast
qed

theorem stopBackend_idempotent_witness:
  "process \<lparr>trace = [], process = Some Exited\<rparr> = Some Exited
   \<and> backendExits backendGoneEnv
   \<and> stopBackend backendGoneEnv \<lparr>trace = [], process = Some Exited\<rparr> =
       (\<lparr>trace = [Kill], process = Some Exited\<rparr>, Returns)
   \<and> main ''front-end/out'' exampleTree
         (backendGoneEnv\<lparr>killError := Some ''TerminateProcess: Access is denied.''\<rparr>) =
       main ''front-end/out'' exampleTree (backendGoneEnv\<lparr>killError := None\<rparr>)"
proof -
  have exited: "process \<lparr>trace = [], process = Some Exited\<rparr> = Some Exited" by simp
  have gone: "backendExits backendGoneEnv" by code_simp
  from stopBackend_idempotent [of backendGoneEnv "\<lparr>trace = [], process = Some Exited\<rparr>"
      "''front-end/out''" exampleTree "''TerminateProcess: Access is denied.''"] exited gone
  show ?thesis by simp
qed

end
